theory Spec2Isabelle
  imports Complex_Main "HOL-Library.Word" "HOL-Library.Char_ord" "HOL-Library.List_Lexorder"
begin

unbundle bit_operations_syntax

chapter \<open>The model\<close>

section \<open>Errors\<close>

text \<open>
  The Python exceptions that the modelled functions can raise (\<open>SystemExit\<close> is
  \<open>sys.exit\<close>). \<open>ValueError\<close> and
  \<open>HTTPException\<close> carry the message (and status code) the source gives them, so that the
  engine's "index not built" error can be told apart from the embedder's "non-empty string"
  error.
\<close>

datatype error =
    ValueError string
  | AttributeError string
  | AssertionError
  | IndexError
  | ValidationError "string list"
  | HTTPException nat string
  | SystemExit nat

section \<open>Embedding cache (\<open>src/cache_manager.py\<close>)\<close>

subsection \<open>float32 arrays and their byte image\<close>

text \<open>
  A float32 array element is its 32-bit pattern. \<open>ndarray.tobytes()\<close> writes each element
  as four bytes, least significant first (the persisted layout of the cache), and
  \<open>np.frombuffer(bytes, dtype=np.float32)\<close> reads them back, raising \<open>ValueError\<close> when the
  buffer size is not a multiple of the element size.
\<close>

type_synonym float32 = "32 word"

type_synonym byte = "8 word"

definition f32_to_le_bytes :: "float32 \<Rightarrow> byte list" where
  "f32_to_le_bytes w =
     [ucast w, ucast (drop_bit 8 w), ucast (drop_bit 16 w), ucast (drop_bit 24 w)]"

definition f32_from_le_bytes :: "byte \<Rightarrow> byte \<Rightarrow> byte \<Rightarrow> byte \<Rightarrow> float32" where
  "f32_from_le_bytes b0 b1 b2 b3 =
     ucast b0 OR push_bit 8 (ucast b1) OR push_bit 16 (ucast b2) OR push_bit 24 (ucast b3)"

definition tobytes :: "float32 list \<Rightarrow> byte list" where
  "tobytes v = concat (map f32_to_le_bytes v)"

fun f32_chunks :: "byte list \<Rightarrow> float32 list" where
  "f32_chunks (b0 # b1 # b2 # b3 # bs) = f32_from_le_bytes b0 b1 b2 b3 # f32_chunks bs"
| "f32_chunks _ = []"

definition frombuffer_f32 :: "byte list \<Rightarrow> error + float32 list" where
  "frombuffer_f32 bs =
     (if length bs mod 4 \<noteq> 0
      then Inl (ValueError ''buffer size must be a multiple of element size'')
      else Inr (f32_chunks bs))"

subsection \<open>The table \<open>embeddings_cache\<close>\<close>

text \<open>
  One row per \<open>doc_id\<close> (the primary key), so the table is a map from \<open>doc_id\<close> to the
  other three columns. \<open>INSERT OR REPLACE\<close> is the map update. Failures of the
  SQLite connection itself are outside the model.
\<close>

record cache_row =
  row_embedding :: "byte list"
  row_hash :: string
  row_updated_at :: string

type_synonym cache_db = "string \<rightharpoonup> cache_row"

text \<open>
  \<open>compute_hash\<close> is \<open>hashlib.sha256(text.encode('utf-8')).hexdigest()\<close>. The digest
  function of the library is a parameter \<open>H\<close> of every operation that hashes; so is the
  timestamp \<open>ts\<close> that \<open>save_embedding\<close> reads from the clock.
\<close>

definition compute_hash :: "(string \<Rightarrow> string) \<Rightarrow> string \<Rightarrow> string" where
  "compute_hash H text = H text"

definition save_embedding ::
  "(string \<Rightarrow> string) \<Rightarrow> cache_db \<Rightarrow> string \<Rightarrow> string \<Rightarrow> float32 list \<Rightarrow> string \<Rightarrow> cache_db" where
  "save_embedding H db doc_id text embedding ts =
     (let text_hash = compute_hash H text;
          embedding_bytes = tobytes embedding
      in db(doc_id \<mapsto> \<lparr>row_embedding = embedding_bytes, row_hash = text_hash,
                        row_updated_at = ts\<rparr>))"

definition check_cache ::
  "(string \<Rightarrow> string) \<Rightarrow> cache_db \<Rightarrow> string \<Rightarrow> string \<Rightarrow> int \<Rightarrow> error + float32 list option" where
  "check_cache H db doc_id text embedding_dim =
     (let current_hash = compute_hash H text in
      case db doc_id of
        None \<Rightarrow> Inr None
      | Some row \<Rightarrow>
          if row_hash row \<noteq> current_hash then Inr None
          else (case frombuffer_f32 (row_embedding row) of
                  Inl e \<Rightarrow> Inl e
                | Inr embedding \<Rightarrow>
                    if int (length embedding) \<noteq> embedding_dim then Inr None
                    else Inr (Some embedding)))"

definition delete_cache_entry :: "cache_db \<Rightarrow> string \<Rightarrow> cache_db" where
  "delete_cache_entry db doc_id = db(doc_id := None)"

definition clear_cache :: "cache_db \<Rightarrow> cache_db" where
  "clear_cache db = Map.empty"

text \<open>
  Every blob that \<open>save_embedding\<close> writes for a float32 array holds whole elements.
  \<open>cache_wf\<close> is that property of a table; the vector a row stores is \<open>stored_vector\<close>.
\<close>

definition cache_wf :: "cache_db \<Rightarrow> bool" where
  "cache_wf db \<longleftrightarrow> (\<forall>doc_id row. db doc_id = Some row \<longrightarrow> length (row_embedding row) mod 4 = 0)"


section \<open>Keyword overlap (\<open>src/utils.py\<close>)\<close>

text \<open>
  The overlap ratio is a Python float, a binary64 number, and is modelled by the real
  number it stands for. \<open>binary64 x\<close> is the binary64 number nearest to the real \<open>x\<close>
  (53 significant bits, a tie going to the even significand, subnormal below
  \<open>2 ^ -1022\<close>; overflow is not modelled). \<open>len(overlap) / len(query_set)\<close> divides two
  Python ints: the nearest binary64 number to the exact quotient. \<open>round(x, ndigits)\<close> on
  a float rounds the exact value of \<open>x\<close> to \<open>ndigits\<close> decimal places, a tie going to the
  even digit, and returns the binary64 number nearest to that decimal.
\<close>

definition round_half_even :: "real \<Rightarrow> int" where
  "round_half_even x =
     (let f = \<lfloor>x\<rfloor>; r = x - of_int f
      in if r < 1/2 then f else if 1/2 < r then f + 1 else if even f then f else f + 1)"

definition binary64_ulp :: "real \<Rightarrow> real" where
  "binary64_ulp x = 2 powr of_int (max \<lfloor>log 2 \<bar>x\<bar>\<rfloor> (- 1022) - 52)"

definition binary64 :: "real \<Rightarrow> real" where
  "binary64 x =
     (if x = 0 then 0
      else of_int (round_half_even (x / binary64_ulp x)) * binary64_ulp x)"

definition float_div :: "nat \<Rightarrow> nat \<Rightarrow> real" where
  "float_div a b = binary64 (real a / real b)"

definition py_round :: "real \<Rightarrow> nat \<Rightarrow> real" where
  "py_round x ndigits = binary64 (of_int (round_half_even (x * 10 ^ ndigits)) / 10 ^ ndigits)"

record overlap_info =
  overlapping_keywords :: "string list"
  overlap_count :: nat
  overlap_ratio :: real
  query_keyword_count :: nat
  doc_keyword_count :: nat

text \<open>
  \<open>set(...)\<close> of a list is its set of elements, \<open>len\<close> of a set its cardinality, and
  \<open>sorted(list(overlap))\<close> the ascending list of the set's elements; Python compares strings
  lexicographically by code point, as the order on \<open>string\<close> does here.
\<close>

definition compute_overlap :: "string list \<Rightarrow> string list \<Rightarrow> overlap_info" where
  "compute_overlap query_keywords doc_keywords =
     (let query_set = set query_keywords;
          doc_set = set doc_keywords;
          overlap = query_set \<inter> doc_set;
          overlap_ratio = (if card query_set > 0
                           then float_div (card overlap) (card query_set) else 0)
      in \<lparr>overlapping_keywords = sorted_list_of_set overlap,
          overlap_count = card overlap,
          overlap_ratio = py_round overlap_ratio 3,
          query_keyword_count = card query_set,
          doc_keyword_count = card doc_set\<rparr>)"


section \<open>Normalisation (\<open>src/embedder.py\<close>)\<close>

text \<open>
  Arithmetic on arrays is modelled in exact real arithmetic: rounding, overflow, infinities
  and NaN of float32 are not modelled. A matrix is the list of its rows.
  \<open>np.linalg.norm(embeddings, axis=1, keepdims=True)\<close> is the list of the rows' Euclidean
  norms, \<open>np.where(norms == 0, 1, norms)\<close> replaces each zero norm by 1, and
  \<open>embeddings / norms\<close> divides every row by its own entry of that list. The divisors
  are kept as a function of their own, \<open>normalize_divisors\<close>, so that a claim can speak of
  them: in HOL \<open>x / 0 = 0\<close>, which numpy does not compute.
\<close>

definition l2_norm :: "real list \<Rightarrow> real" where
  "l2_norm v = sqrt (\<Sum>x\<leftarrow>v. x\<^sup>2)"

definition linalg_norm_rows :: "real list list \<Rightarrow> real list" where
  "linalg_norm_rows m = map l2_norm m"

definition normalize_divisors :: "real list list \<Rightarrow> real list" where
  "normalize_divisors m = map (\<lambda>n. if n = 0 then 1 else n) (linalg_norm_rows m)"

definition normalize_embeddings :: "real list list \<Rightarrow> real list list" where
  "normalize_embeddings m = map2 (\<lambda>row n. map (\<lambda>x. x / n) row) m (normalize_divisors m)"

section \<open>Embedder (\<open>src/embedder.py\<close>)\<close>

text \<open>
  The sentence-transformers model is a parameter: \<open>model_encode\<close> is
  \<open>model.encode(text, convert_to_numpy=True)\<close>, a float32 array, and \<open>model_dimension\<close> is
  \<open>model.get_sentence_embedding_dimension()\<close>. Texts are taken to be ASCII, so
  \<open>str.lower()\<close> maps \<open>A\<close>..\<open>Z\<close> to \<open>a\<close>..\<open>z\<close> and leaves every other character.
\<close>

record embedder =
  model_encode :: "string \<Rightarrow> float32 list"
  model_dimension :: int

definition lower_char :: "char \<Rightarrow> char" where
  "lower_char c =
     (if CHR ''A'' \<le> c \<and> c \<le> CHR ''Z'' then char_of (of_char c + (32 :: nat)) else c)"

definition lower :: "string \<Rightarrow> string" where
  "lower s = map lower_char s"

definition embed_text :: "embedder \<Rightarrow> string \<Rightarrow> error + float32 list" where
  "embed_text emb text =
     (if text = [] then Inl (ValueError ''Input text must be a non-empty string'')
      else Inr (model_encode emb (lower text)))"

definition get_embedding_dimension :: "embedder \<Rightarrow> int" where
  "get_embedding_dimension emb = model_dimension emb"

text \<open>
  The number a float32 bit pattern stands for (sign, 8 exponent bits, 23 fraction bits),
  for zero, subnormal and normal patterns; infinities and NaN are outside the numeric model.
  \<open>np.array(embeddings_list)\<close> stacks equally long vectors into a matrix and raises
  \<open>ValueError\<close> when their lengths differ.
\<close>

definition f32_val :: "float32 \<Rightarrow> real" where
  "f32_val w =
     (let e = unat (take_bit 8 (drop_bit 23 w));
          m = unat (take_bit 23 w);
          mag = (if e = 0 then real m else real (2 ^ 23 + m) * 2 ^ (e - 1)) / 2 ^ 149
      in if bit w 31 then - mag else mag)"

definition np_array :: "float32 list list \<Rightarrow> error + real list list" where
  "np_array vs =
     (if list_ex (\<lambda>v. length v \<noteq> length (hd vs)) vs
      then Inl (ValueError ''inhomogeneous shape'')
      else Inr (map (map f32_val) vs))"

section \<open>Keyword extraction (\<open>src/utils.py\<close>)\<close>

text \<open>
  \<open>re.findall(r'\b[a-z0-9]+\b', text.lower())\<close>: on ASCII text a word character is a
  letter, a digit or the underscore, and a match is a maximal run of word characters made
  of lower-case letters and digits only (a run that holds an underscore gives no match).
\<close>

definition is_lower_alnum :: "char \<Rightarrow> bool" where
  "is_lower_alnum c \<longleftrightarrow> (CHR ''a'' \<le> c \<and> c \<le> CHR ''z'') \<or> (CHR ''0'' \<le> c \<and> c \<le> CHR ''9'')"

definition is_word_char :: "char \<Rightarrow> bool" where
  "is_word_char c \<longleftrightarrow>
     is_lower_alnum c \<or> (CHR ''A'' \<le> c \<and> c \<le> CHR ''Z'') \<or> c = CHR ''_''"

fun word_runs :: "string \<Rightarrow> string \<Rightarrow> string list" where
  "word_runs cur [] = (if cur = [] then [] else [cur])"
| "word_runs cur (c # cs) =
     (if is_word_char c then word_runs (cur @ [c]) cs
      else (if cur = [] then [] else [cur]) @ word_runs [] cs)"

definition findall_words :: "string \<Rightarrow> string list" where
  "findall_words s = filter (list_all is_lower_alnum) (word_runs [] s)"

definition extract_keywords :: "string \<Rightarrow> nat \<Rightarrow> string list" where
  "extract_keywords text min_length =
     (let words = findall_words (lower text)
      in filter (\<lambda>word. length word \<ge> min_length) words)"

definition get_text_preview :: "string \<Rightarrow> nat \<Rightarrow> string" where
  "get_text_preview text max_length =
     (if length text \<le> max_length then text else take max_length text @ ''...'')"

section \<open>Vector index (\<open>src/search_engine.py\<close>)\<close>

subsection \<open>Library operations\<close>

text \<open>
  \<open>np.dot(matrix, vector)\<close> is the list of the rows' inner products with the vector and
  raises \<open>ValueError\<close> when a row and the vector differ in length. \<open>np.argsort\<close> lists
  the positions in ascending order of their values; positions of equal value are kept in
  ascending order (numpy's default sort makes no promise for them). \<open>xs[::-1]\<close> is
  \<open>rev\<close>, and \<open>xs[:k]\<close> takes the first \<open>k\<close> elements, or drops the last \<open>-k\<close> when
  \<open>k\<close> is negative. \<open>xs[i]\<close> counts a negative \<open>i\<close> from the end and raises
  \<open>IndexError\<close> out of range.
\<close>

definition inner_product :: "real list \<Rightarrow> real list \<Rightarrow> real" where
  "inner_product u v = (\<Sum>(x, y)\<leftarrow>zip u v. x * y)"

definition np_dot :: "real list list \<Rightarrow> real list \<Rightarrow> error + real list" where
  "np_dot m v =
     (if list_ex (\<lambda>row. length row \<noteq> length v) m then Inl (ValueError ''shapes not aligned'')
      else Inr (map (\<lambda>row. inner_product row v) m))"

definition argsort :: "real list \<Rightarrow> nat list" where
  "argsort scores = sort_key (\<lambda>i. scores ! i) [0..<length scores]"

definition slice_to :: "'a list \<Rightarrow> int \<Rightarrow> 'a list" where
  "slice_to xs k = (if 0 \<le> k then take (nat k) xs else take (length xs - nat (- k)) xs)"

definition py_index :: "'a list \<Rightarrow> int \<Rightarrow> error + 'a" where
  "py_index xs i =
     (if 0 \<le> i \<and> i < int (length xs) then Inr (xs ! nat i)
      else if i < 0 \<and> - int (length xs) \<le> i then Inr (xs ! nat (int (length xs) + i))
      else Inl IndexError)"

text \<open>
  \<open>faiss.IndexFlatIP\<close> keeps the added vectors as they are. Its \<open>search(x, k)\<close> asserts
  that the query has the index's dimension and that \<open>k > 0\<close>, and returns for the query
  exactly \<open>k\<close> scores and \<open>k\<close> labels: the stored vectors of largest inner product in
  descending order of score, and, when fewer than \<open>k\<close> vectors are stored, the label
  \<open>-1\<close> with the score \<open>-FLT_MAX\<close> in the remaining places. Vectors of equal score are
  listed here in ascending order of label (the library makes no promise for them).
\<close>

record index_flat_ip =
  faiss_d :: nat
  faiss_xb :: "real list list"

definition neg_FLT_MAX :: real where
  "neg_FLT_MAX = - 340282346638528859811704183484516925440"

definition faiss_search :: "index_flat_ip \<Rightarrow> real list \<Rightarrow> int \<Rightarrow> error + (real list \<times> int list)" where
  "faiss_search ix x k =
     (if length x \<noteq> faiss_d ix then Inl AssertionError
      else if k \<le> 0 then Inl AssertionError
      else
        let scores = map (\<lambda>row. inner_product row x) (faiss_xb ix);
            top = take (nat k) (sort_key (\<lambda>i. - (scores ! i)) [0..<length scores]);
            pad = nat k - length top
        in Inr (map (\<lambda>i. scores ! i) top @ replicate pad neg_FLT_MAX,
                map int top @ replicate pad (- 1)))"

subsection \<open>The engine\<close>

record document =
  doc_id :: string
  filepath :: string
  filename :: string
  raw_content :: string
  content :: string
  raw_length :: nat
  cleaned_length :: nat

record engine =
  use_faiss :: bool
  the_embedder :: embedder
  cache_db :: cache_db
  documents :: "document list"
  embeddings :: "real list list option"
  doc_id_to_idx :: "string \<rightharpoonup> nat"
  faiss_index :: "index_flat_ip option"

text \<open>
  \<open>__init__\<close>: \<open>FAISS_AVAILABLE\<close> is whether the import of faiss succeeded; the cache
  manager opens the (persistent) table \<open>db\<close>.
\<close>

definition init_engine :: "bool \<Rightarrow> bool \<Rightarrow> embedder \<Rightarrow> cache_db \<Rightarrow> engine" where
  "init_engine FAISS_AVAILABLE want_faiss emb db =
     \<lparr>use_faiss = (want_faiss \<and> FAISS_AVAILABLE), the_embedder = emb, cache_db = db,
      documents = [], embeddings = None, doc_id_to_idx = Map.empty, faiss_index = None\<rparr>"

text \<open>
  \<open>load_documents\<close>: the list \<open>files\<close> is what \<open>load_text_files(self.data_dir)\<close> read from
  disk. The result is the returned count and the engine after the call.
\<close>

definition load_documents :: "document list \<Rightarrow> engine \<Rightarrow> nat \<times> engine" where
  "load_documents files eng =
     (let eng1 = eng\<lparr>documents := files\<rparr>
      in if length files = 0 then (0, eng1)
         else (length files,
               eng1\<lparr>doc_id_to_idx := map_of (rev (zip (map doc_id files) [0..<length files]))\<rparr>))"

record gen_acc =
  embeddings_list :: "float32 list list"
  cache_hits :: nat
  cache_misses :: nat

text \<open>
  The loop of \<open>generate_embeddings\<close> over the documents. It returns the table as well,
  because a write to the cache stays when a later document raises.
\<close>

fun generate_loop ::
  "(string \<Rightarrow> string) \<Rightarrow> string \<Rightarrow> embedder \<Rightarrow> bool \<Rightarrow> int \<Rightarrow> document list \<Rightarrow> gen_acc \<Rightarrow> cache_db
     \<Rightarrow> (error + gen_acc) \<times> cache_db" where
  "generate_loop H ts emb force_regenerate embedding_dim [] acc db = (Inr acc, db)"
| "generate_loop H ts emb force_regenerate embedding_dim (doc # docs) acc db =
     (case (if \<not> force_regenerate
            then check_cache H db (doc_id doc) (content doc) embedding_dim else Inr None) of
        Inl e \<Rightarrow> (Inl e, db)
      | Inr (Some cached_embedding) \<Rightarrow>
          generate_loop H ts emb force_regenerate embedding_dim docs
            (acc\<lparr>embeddings_list := embeddings_list acc @ [cached_embedding],
                 cache_hits := cache_hits acc + 1\<rparr>) db
      | Inr None \<Rightarrow>
          (case embed_text emb (content doc) of
             Inl e \<Rightarrow> (Inl e, db)
           | Inr embedding \<Rightarrow>
               generate_loop H ts emb force_regenerate embedding_dim docs
                 (acc\<lparr>embeddings_list := embeddings_list acc @ [embedding],
                      cache_misses := cache_misses acc + 1\<rparr>)
                 (save_embedding H db (doc_id doc) (content doc) embedding ts)))"

text \<open>
  \<open>generate_embeddings\<close> returns the printed counts (cache hits, cache misses) or the
  error raised, and the engine after the call.
\<close>

definition generate_embeddings ::
  "(string \<Rightarrow> string) \<Rightarrow> string \<Rightarrow> bool \<Rightarrow> engine \<Rightarrow> (error + nat \<times> nat) \<times> engine" where
  "generate_embeddings H ts force_regenerate eng =
     (if length (documents eng) = 0
      then (Inl (ValueError ''No documents loaded. Call load_documents() first.''), eng)
      else
        let embedding_dim = get_embedding_dimension (the_embedder eng)
        in (case generate_loop H ts (the_embedder eng) force_regenerate embedding_dim
                   (documents eng) \<lparr>embeddings_list = [], cache_hits = 0, cache_misses = 0\<rparr>
                   (cache_db eng) of
              (Inl e, db) \<Rightarrow> (Inl e, eng\<lparr>cache_db := db\<rparr>)
            | (Inr acc, db) \<Rightarrow>
                (case np_array (embeddings_list acc) of
                   Inl e \<Rightarrow> (Inl e, eng\<lparr>cache_db := db\<rparr>)
                 | Inr arr \<Rightarrow>
                     (Inr (cache_hits acc, cache_misses acc),
                      eng\<lparr>cache_db := db, embeddings := Some arr\<rparr>))))"

text \<open>
  The loop as \<open>generate_embeddings\<close> runs it, before \<open>np.array\<close> stacks the vectors: the
  float32 vectors of \<open>embeddings_list\<close>, the two counts and the table.
\<close>

definition generate_embeddings_list ::
  "(string \<Rightarrow> string) \<Rightarrow> string \<Rightarrow> bool \<Rightarrow> engine \<Rightarrow> (error + gen_acc) \<times> cache_db" where
  "generate_embeddings_list H ts force_regenerate eng =
     generate_loop H ts (the_embedder eng) force_regenerate
       (get_embedding_dimension (the_embedder eng)) (documents eng)
       \<lparr>embeddings_list = [], cache_hits = 0, cache_misses = 0\<rparr> (cache_db eng)"

definition build_faiss_index :: "engine \<Rightarrow> real list list \<Rightarrow> error + engine" where
  "build_faiss_index eng embs =
     (let embeddings_normalized = normalize_embeddings embs
      in (case embeddings_normalized of
            [] \<Rightarrow> Inl IndexError
          | row # _ \<Rightarrow>
              Inr (eng\<lparr>faiss_index :=
                         Some \<lparr>faiss_d = length row, faiss_xb = embeddings_normalized\<rparr>\<rparr>)))"

definition prepare_cosine_similarity :: "engine \<Rightarrow> real list list \<Rightarrow> engine" where
  "prepare_cosine_similarity eng embs = eng\<lparr>embeddings := Some (normalize_embeddings embs)\<rparr>"

definition build_vector_index :: "engine \<Rightarrow> error + engine" where
  "build_vector_index eng =
     (case embeddings eng of
        None \<Rightarrow> Inl (ValueError ''No embeddings available. Call generate_embeddings() first.'')
      | Some embs \<Rightarrow>
          if use_faiss eng then build_faiss_index eng embs
          else Inr (prepare_cosine_similarity eng embs))"

definition search_faiss :: "engine \<Rightarrow> real list \<Rightarrow> int \<Rightarrow> error + (real list \<times> int list)" where
  "search_faiss eng query_embedding top_k =
     (case faiss_index eng of
        None \<Rightarrow> Inl (AttributeError ''NoneType object has no attribute search'')
      | Some ix \<Rightarrow> faiss_search ix query_embedding top_k)"

definition search_cosine :: "real list list \<Rightarrow> real list \<Rightarrow> int \<Rightarrow> error + (real list \<times> int list)" where
  "search_cosine embs query_embedding top_k =
     (case np_dot embs query_embedding of
        Inl e \<Rightarrow> Inl e
      | Inr scores \<Rightarrow>
          let top_indices = slice_to (rev (argsort scores)) top_k;
              top_scores = map (\<lambda>i. scores ! i) top_indices
          in Inr (top_scores, map int top_indices))"

subsection \<open>Queries\<close>

text \<open>
  The explanation is kept as its parts; the formatting of the numbers into the text of
  each part is not modelled.
\<close>

datatype explanation_part =
    HighSimilarity real
  | ModerateSimilarity real
  | LowSimilarity real
  | MatchingKeywords nat real "string list"
  | NoKeywordMatches
  | ShortDocument
  | LongDocument

definition generate_explanation :: "real \<Rightarrow> overlap_info \<Rightarrow> document \<Rightarrow> explanation_part list" where
  "generate_explanation score info doc =
     [if score > 7/10 then HighSimilarity score
      else if score > 5/10 then ModerateSimilarity score
      else LowSimilarity score]
     @ [if overlap_count info > 0
        then MatchingKeywords (overlap_count info) (overlap_ratio info)
               (take 5 (overlapping_keywords info))
        else NoKeywordMatches]
     @ (if cleaned_length doc < 100 then [ShortDocument]
        else if cleaned_length doc > 500 then [LongDocument]
        else [])"

record search_result =
  rank :: nat
  res_doc_id :: string
  res_filename :: string
  score :: real
  preview :: string
  doc_length :: nat
  keywords_overlap :: "string list"
  res_overlap_count :: nat
  res_overlap_ratio :: real
  explanation :: "explanation_part list"

fun build_results ::
  "document list \<Rightarrow> string list \<Rightarrow> nat \<Rightarrow> (int \<times> real) list \<Rightarrow> error + search_result list" where
  "build_results docs query_keywords rnk [] = Inr []"
| "build_results docs query_keywords rnk ((idx, scr) # rest) =
     (case py_index docs idx of
        Inl e \<Rightarrow> Inl e
      | Inr doc \<Rightarrow>
          let doc_keywords = extract_keywords (content doc) 3;
              overlap_info = compute_overlap query_keywords doc_keywords;
              result = \<lparr>rank = rnk + 1, res_doc_id = doc_id doc, res_filename = filename doc,
                        score = scr, preview = get_text_preview (content doc) 150,
                        doc_length = cleaned_length doc,
                        keywords_overlap = overlapping_keywords overlap_info,
                        res_overlap_count = overlap_count overlap_info,
                        res_overlap_ratio = overlap_ratio overlap_info,
                        explanation = generate_explanation scr overlap_info doc\<rparr>
          in (case build_results docs query_keywords (rnk + 1) rest of
                Inl e \<Rightarrow> Inl e
              | Inr rs \<Rightarrow> Inr (result # rs)))"

definition search :: "engine \<Rightarrow> string \<Rightarrow> int \<Rightarrow> error + search_result list" where
  "search eng query top_k =
     (case embeddings eng of
        None \<Rightarrow> Inl (ValueError ''Search index not built. Call build_vector_index() first.'')
      | Some embs \<Rightarrow>
          (case embed_text (the_embedder eng) query of
             Inl e \<Rightarrow> Inl e
           | Inr embedded \<Rightarrow>
               let query_embedding = hd (normalize_embeddings [map f32_val embedded])
               in (case (if use_faiss eng then search_faiss eng query_embedding top_k
                         else search_cosine embs query_embedding top_k) of
                     Inl e \<Rightarrow> Inl e
                   | Inr (scores, indices) \<Rightarrow>
                       build_results (documents eng) (extract_keywords query 3) 0
                         (zip indices scores))))"


section \<open>API layer (\<open>src/api.py\<close>)\<close>

text \<open>
  \<open>SearchRequest\<close> is the pydantic model: \<open>query\<close> with \<open>min_length=1\<close>, \<open>top_k\<close> with
  \<open>ge=1, le=50\<close>; constructing it raises a validation error that names the offending
  fields. \<open>str.strip()\<close> removes leading and trailing whitespace (ASCII text).
\<close>

record search_request =
  req_query :: string
  req_top_k :: int

record search_response =
  resp_query :: string
  resp_top_k :: int
  total_results :: nat
  results :: "search_result list"

definition SearchRequest :: "string \<Rightarrow> int \<Rightarrow> error + search_request" where
  "SearchRequest q k =
     (let bad = (if length q < 1 then [''query''] else [])
                @ (if k < 1 \<or> 50 < k then [''top_k''] else [])
      in if bad \<noteq> [] then Inl (ValidationError bad)
         else Inr \<lparr>req_query = q, req_top_k = k\<rparr>)"

definition isspace :: "char \<Rightarrow> bool" where
  "isspace c \<longleftrightarrow> (9 \<le> (of_char c :: nat) \<and> (of_char c :: nat) \<le> 13)
                 \<or> (28 \<le> (of_char c :: nat) \<and> (of_char c :: nat) \<le> 32)"

definition strip :: "string \<Rightarrow> string" where
  "strip s = rev (dropWhile isspace (rev (dropWhile isspace s)))"

definition search_documents :: "engine option \<Rightarrow> search_request \<Rightarrow> error + search_response" where
  "search_documents search_engine request =
     (case search_engine of
        None \<Rightarrow> Inl (HTTPException 503 ''Search engine not initialized'')
      | Some eng \<Rightarrow>
          if strip (req_query request) = [] then Inl (HTTPException 400 ''Query cannot be empty'')
          else (case search eng (req_query request) (req_top_k request) of
                  Inl e \<Rightarrow> Inl (HTTPException 500 ''Search failed'')
                | Inr rs \<Rightarrow>
                    Inr \<lparr>resp_query = req_query request, resp_top_k = req_top_k request,
                         total_results = length rs, results = rs\<rparr>))"

text \<open>The endpoint \<open>POST /search\<close>: the request body is validated, then handled.\<close>

definition post_search :: "engine option \<Rightarrow> string \<Rightarrow> int \<Rightarrow> error + search_response" where
  "post_search search_engine q k =
     (case SearchRequest q k of
        Inl e \<Rightarrow> Inl e
      | Inr request \<Rightarrow> search_documents search_engine request)"

section \<open>A stub embedder and sample documents\<close>

text \<open>
  A deterministic two-dimensional stand-in for the model, for evaluating the engine on
  concrete inputs: the first component is 1.0 when the text holds the letter \<open>a\<close>, the
  second is 1.0 when it holds the letter \<open>b\<close>, and each is 0.0 otherwise.
\<close>

definition stub_encode :: "string \<Rightarrow> float32 list" where
  "stub_encode t = [if CHR ''a'' \<in> set t then 0x3F800000 else 0,
                    if CHR ''b'' \<in> set t then 0x3F800000 else 0]"

definition stub_embedder :: embedder where
  "stub_embedder = \<lparr>model_encode = stub_encode, model_dimension = 2\<rparr>"

definition sample_doc :: "string \<Rightarrow> string \<Rightarrow> document" where
  "sample_doc i c =
     \<lparr>doc_id = i, filepath = ''data/'' @ i @ ''.txt'', filename = i @ ''.txt'', raw_content = c,
      content = c, raw_length = length c, cleaned_length = length c\<rparr>"

text \<open>
  A document read from a subdirectory. \<open>load_text_files\<close> walks the data directory
  recursively (\<open>rglob\<close>) and takes the file name without its extension as \<open>doc_id\<close>, so
  files of one name in different subdirectories come with the same \<open>doc_id\<close>.
\<close>

definition sample_doc_in :: "string \<Rightarrow> string \<Rightarrow> string \<Rightarrow> document" where
  "sample_doc_in dir i c =
     \<lparr>doc_id = i, filepath = ''data/'' @ dir @ ''/'' @ i @ ''.txt'', filename = i @ ''.txt'',
      raw_content = c, content = c, raw_length = length c, cleaned_length = length c\<rparr>"

definition stub_digest :: "string \<Rightarrow> string" where
  "stub_digest t = t"

text \<open>An engine state with the stub embedder, and the cache the stub fills for a list of
  documents.\<close>

definition stub_engine ::
  "bool \<Rightarrow> document list \<Rightarrow> cache_db \<Rightarrow> real list list option \<Rightarrow> index_flat_ip option \<Rightarrow> engine" where
  "stub_engine uf files db embs ix =
     \<lparr>use_faiss = uf, the_embedder = stub_embedder, cache_db = db, documents = files,
      embeddings = embs,
      doc_id_to_idx = map_of (rev (zip (map doc_id files) [0..<length files])),
      faiss_index = ix\<rparr>"

definition stub_cache :: "document list \<Rightarrow> cache_db" where
  "stub_cache files =
     fold (\<lambda>d db. save_embedding stub_digest db (doc_id d) (content d)
                     (stub_encode (lower (content d))) ''now'') files Map.empty"

section \<open>Start-up (\<open>main.py\<close>)\<close>

text \<open>
  \<open>initialize_search_engine\<close>: construct the engine, load the documents, generate the
  embeddings, build the index. \<open>files\<close> is what the data directory holds.
\<close>

definition initialize_search_engine ::
  "(string \<Rightarrow> string) \<Rightarrow> string \<Rightarrow> bool \<Rightarrow> embedder \<Rightarrow> cache_db \<Rightarrow> document list \<Rightarrow> bool \<Rightarrow> bool
     \<Rightarrow> error + engine" where
  "initialize_search_engine H ts FAISS_AVAILABLE emb db files want_faiss force_regenerate =
     (let engine0 = init_engine FAISS_AVAILABLE want_faiss emb db;
          (num_docs, engine1) = load_documents files engine0
      in if num_docs = 0 then Inl (SystemExit 1)
         else (case generate_embeddings H ts force_regenerate engine1 of
                 (Inl e, engine2) \<Rightarrow> Inl e
               | (Inr counts, engine2) \<Rightarrow> build_vector_index engine2))"

chapter \<open>Properties\<close>

section \<open>Embedding cache (\<open>src/cache_manager.py\<close>)\<close>

lemma f32_le_roundtrip:
  "f32_from_le_bytes (ucast w) (ucast (drop_bit 8 w)) (ucast (drop_bit 16 w))
     (ucast (drop_bit 24 w)) = (w :: float32)"
  unfolding f32_from_le_bytes_def
  apply (rule bit_word_eqI)
  subgoal for n
    by (cases "n < 8"; cases "n < 16"; cases "n < 24") (auto simp add: bit_simps)
  done

lemma length_tobytes: "length (tobytes v) = 4 * length v"
  by (induction v) (simp_all add: tobytes_def f32_to_le_bytes_def)

lemma f32_chunks_tobytes: "f32_chunks (tobytes v) = v"
  by (induction v) (simp_all add: tobytes_def f32_to_le_bytes_def f32_le_roundtrip)

lemma frombuffer_tobytes: "frombuffer_f32 (tobytes v) = Inr v"
  by (simp add: frombuffer_f32_def length_tobytes f32_chunks_tobytes)



lemma cache_wf_delete_cache_entry: "cache_wf db \<Longrightarrow> cache_wf (delete_cache_entry db did)"
  by (simp add: cache_wf_def delete_cache_entry_def)

lemma cache_wf_clear_cache: "cache_wf (clear_cache db)"
  by (simp add: cache_wf_def clear_cache_def)

lemma check_cache_after_save:
  "check_cache H (save_embedding H db did text v ts) did text' edim =
     (if H text' = H text \<and> int (length v) = edim then Inr (Some v) else Inr None)"
  by (simp add: check_cache_def save_embedding_def compute_hash_def frombuffer_tobytes)


text \<open>
  C6. For every doc_id, text and float32 vector \<open>v\<close>, \<open>save_embedding\<close> (put) followed by
  \<open>check_cache\<close> (get) with the same doc_id, the same text and the dimension of \<open>v\<close> is a
  hit that returns \<open>v\<close> itself, bit for bit: writing the array as bytes and reading the
  bytes back as float32 loses nothing.
\<close>

theorem put_get_roundtrip:
  "check_cache H (save_embedding H db did text v ts) did text (int (length v)) = Inr (Some v)"
  by (simp add: check_cache_after_save)



section \<open>Keyword overlap (\<open>src/utils.py\<close>)\<close>




lemma binary64_zero: "binary64 0 = 0"
  by (simp add: binary64_def)


lemma binary64_ulp_eval:
  assumes "0 < x" and "2 powr of_int e \<le> x" and "x < 2 powr of_int (e + 1)" and "- 1022 \<le> e"
  shows "binary64_ulp x = 2 powr of_int (e - 52)"
proof -
  have "\<lfloor>log 2 x\<rfloor> = e"
    using assms floor_log_eq_powr_iff [of x 2 e] by simp
  with assms show ?thesis by (simp add: binary64_ulp_def max_def)
qed

lemma binary64_eval:
  assumes "0 < x" and "2 powr of_int e \<le> x" and "x < 2 powr of_int (e + 1)" and "- 1022 \<le> e"
  shows "binary64 x
           = of_int (round_half_even (x / 2 powr of_int (e - 52))) * 2 powr of_int (e - 52)"
  using assms binary64_ulp_eval [OF assms] by (simp add: binary64_def)






lemma binary64_one: "binary64 1 = 1"
  using binary64_eval [of 1 0] by (simp add: powr_minus powr_numeral round_half_even_def)

text \<open>
  Four quotients whose thousandfold is halfway between two integers. Three of them are not
  binary64 numbers, and the float nearest to the quotient decides the rounding (up for
  1/80 and 1/400, down for 3/80); 1/16 is one, and the tie goes to the even digit.
\<close>

lemma binary64_1_80: "binary64 (1 / 80) = 7205759403792794 / 2 ^ 59"
  using binary64_eval [of "1/80" "-7"]
  by (simp add: powr_minus powr_numeral round_half_even_def Let_def field_simps)

lemma binary64_3_80: "binary64 (3 / 80) = 5404319552844595 / 2 ^ 57"
  using binary64_eval [of "3/80" "-5"]
  by (simp add: powr_minus powr_numeral round_half_even_def Let_def field_simps)

lemma binary64_1_400: "binary64 (1 / 400) = 5764607523034235 / 2 ^ 61"
  using binary64_eval [of "1/400" "-9"]
  by (simp add: powr_minus powr_numeral round_half_even_def Let_def field_simps)

lemma binary64_1_16: "binary64 (1 / 16) = 1 / 16"
  using binary64_eval [of "1/16" "-4"]
  by (simp add: powr_minus powr_numeral round_half_even_def Let_def field_simps)

lemma binary64_1_3: "binary64 (1 / 3) = 6004799503160661 / 2 ^ 54"
  using binary64_eval [of "1/3" "-2"]
  by (simp add: powr_minus powr_numeral round_half_even_def Let_def field_simps)


lemma py_round_half_cases:
  "py_round (float_div 1 80) 3 = binary64 (13 / 1000)"
  "py_round (float_div 3 80) 3 = binary64 (37 / 1000)"
  "py_round (float_div 1 400) 3 = binary64 (3 / 1000)"
  "py_round (float_div 1 16) 3 = binary64 (62 / 1000)"
  "py_round (float_div 1 3) 3 = binary64 (333 / 1000)"
  by (simp_all add: float_div_def binary64_1_80 binary64_3_80 binary64_1_400 binary64_1_16
        binary64_1_3 py_round_def round_half_even_def Let_def)










section \<open>Normalisation (\<open>src/embedder.py\<close>)\<close>
















section \<open>The engine on concrete inputs\<close>

lemma f32_val_one: "f32_val 0x3F800000 = 1"
  by (simp add: f32_val_def Let_def)

lemma f32_val_zero: "f32_val 0 = 0"
  by (simp add: f32_val_def Let_def)

lemma sample_doc_sel:
  "doc_id (sample_doc i c) = i" "content (sample_doc i c) = c"
  "filename (sample_doc i c) = i @ ''.txt''" "cleaned_length (sample_doc i c) = length c"
  by (simp_all add: sample_doc_def)

lemma stub_engine_sel:
  "use_faiss (stub_engine uf files db embs ix) = uf"
  "the_embedder (stub_engine uf files db embs ix) = stub_embedder"
  "cache_db (stub_engine uf files db embs ix) = db"
  "documents (stub_engine uf files db embs ix) = files"
  "embeddings (stub_engine uf files db embs ix) = embs"
  "faiss_index (stub_engine uf files db embs ix) = ix"
  by (simp_all add: stub_engine_def)

lemma stub_encode_eval:
  "stub_encode (lower ''aaa'') = [0x3F800000, 0]"
  "stub_encode (lower ''bbb'') = [0, 0x3F800000]"
  "stub_encode (lower ''zzz'') = [0, 0]"
  "stub_encode (lower '' '') = [0, 0]"
  by (simp_all add: stub_encode_def lower_def lower_char_def)

lemma load_documents_stub:
  "files \<noteq> [] \<Longrightarrow> load_documents files (init_engine fa want stub_embedder db)
     = (length files, stub_engine (want \<and> fa) files db None None)"
  by (simp add: load_documents_def init_engine_def stub_engine_def)

lemmas generate_eval =
  generate_embeddings_def stub_engine_def get_embedding_dimension_def stub_embedder_def
  check_cache_def embed_text_def sample_doc_sel stub_encode_eval np_array_def f32_val_one
  f32_val_zero stub_cache_def save_embedding_def compute_hash_def stub_digest_def

lemma generate_d1:
  "generate_embeddings stub_digest ''now'' False
     (stub_engine uf [sample_doc ''d1'' ''aaa''] Map.empty None None)
   = (Inr (0, 1), stub_engine uf [sample_doc ''d1'' ''aaa'']
                    (stub_cache [sample_doc ''d1'' ''aaa'']) (Some [[1, 0]]) None)"
  by (simp add: generate_eval)

lemma generate_dz:
  "generate_embeddings stub_digest ''now'' False
     (stub_engine uf [sample_doc ''dz'' ''zzz''] Map.empty None None)
   = (Inr (0, 1), stub_engine uf [sample_doc ''dz'' ''zzz'']
                    (stub_cache [sample_doc ''dz'' ''zzz'']) (Some [[0, 0]]) None)"
  by (simp add: generate_eval)

lemma generate_d1_d2:
  "generate_embeddings stub_digest ''now'' False
     (stub_engine uf [sample_doc ''d1'' ''aaa'', sample_doc ''d2'' ''bbb''] Map.empty None None)
   = (Inr (0, 2), stub_engine uf [sample_doc ''d1'' ''aaa'', sample_doc ''d2'' ''bbb'']
        (stub_cache [sample_doc ''d1'' ''aaa'', sample_doc ''d2'' ''bbb''])
        (Some [[1, 0], [0, 1]]) None)"
  by (simp add: generate_eval)

lemma normalize_eval:
  "normalize_embeddings [[1, 0]] = [[1, 0]]"
  "normalize_embeddings [[0, 0]] = [[0, 0]]"
  "normalize_embeddings [[1, 0], [0, 1]] = [[1, 0], [0, 1]]"
  by (simp_all add: normalize_embeddings_def normalize_divisors_def linalg_norm_rows_def
        l2_norm_def)

lemma build_stub_cosine:
  "build_vector_index (stub_engine False files db (Some embs) None)
     = Inr (stub_engine False files db (Some (normalize_embeddings embs)) None)"
  by (simp add: build_vector_index_def stub_engine_def prepare_cosine_similarity_def)

lemma build_stub_faiss:
  "build_vector_index (stub_engine True files db (Some (e # embs)) None)
     = Inr (stub_engine True files db (Some (e # embs))
              (Some \<lparr>faiss_d = length e, faiss_xb = normalize_embeddings (e # embs)\<rparr>))"
  by (simp add: build_vector_index_def stub_engine_def build_faiss_index_def Let_def
      normalize_embeddings_def normalize_divisors_def linalg_norm_rows_def split: list.splits)

lemmas initialize_eval =
  initialize_search_engine_def load_documents_stub generate_d1 generate_dz generate_d1_d2
  build_stub_cosine build_stub_faiss normalize_eval numeral_2_eq_2

lemma extract_keywords_eval:
  "extract_keywords ''aaa'' 3 = [''aaa'']" "extract_keywords '' '' 3 = []"
  "extract_keywords ''bbb'' 3 = [''bbb'']"
  by (simp_all add: extract_keywords_def findall_words_def lower_def lower_char_def
        is_word_char_def is_lower_alnum_def)

lemmas search_eval =
  search_def stub_engine_sel embed_text_def stub_embedder_def stub_encode_eval f32_val_one
  f32_val_zero normalize_eval search_cosine_def np_dot_def inner_product_def argsort_def
  slice_to_def extract_keywords_eval sample_doc_sel py_index_def compute_overlap_def
  py_round_def round_half_even_def float_div_def binary64_zero binary64_one
  generate_explanation_def get_text_preview_def
  search_faiss_def faiss_search_def neg_FLT_MAX_def upt_rec

lemma search_before_generate_embeddings:
  "embeddings eng = None \<Longrightarrow>
   search eng q k = Inl (ValueError ''Search index not built. Call build_vector_index() first.'')"
  by (simp add: search_def)

text \<open>
  C3. A search before the index is built should fail with the "not ready" error; the code
  does otherwise. \<open>search\<close> tests \<open>self.embeddings is None\<close>, which
  \<open>generate_embeddings\<close> already clears. With the brute-force strategy, after
  \<open>load_documents\<close> and \<open>generate_embeddings\<close> and without \<open>build_vector_index\<close>,
  \<open>search\<close> returns a result list; with the FAISS strategy it fails on the missing index
  object with \<open>AttributeError\<close>, not with the "index not built" error.
\<close>

theorem search_without_build_vector_index:
  "load_documents [sample_doc ''d1'' ''aaa''] (init_engine True False stub_embedder Map.empty)
     = (1, stub_engine False [sample_doc ''d1'' ''aaa''] Map.empty None None)
   \<and> generate_embeddings stub_digest ''now'' False
        (stub_engine False [sample_doc ''d1'' ''aaa''] Map.empty None None)
     = (Inr (0, 1), stub_engine False [sample_doc ''d1'' ''aaa'']
                      (stub_cache [sample_doc ''d1'' ''aaa'']) (Some [[1, 0]]) None)
   \<and> search (stub_engine False [sample_doc ''d1'' ''aaa'']
                (stub_cache [sample_doc ''d1'' ''aaa'']) (Some [[1, 0]]) None) ''aaa'' 1
     = Inr [\<lparr>rank = 1, res_doc_id = ''d1'', res_filename = ''d1.txt'', score = 1,
              preview = ''aaa'', doc_length = 3, keywords_overlap = [''aaa''],
              res_overlap_count = 1, res_overlap_ratio = 1,
              explanation = [HighSimilarity 1, MatchingKeywords 1 1 [''aaa''], ShortDocument]\<rparr>]
   \<and> search (stub_engine True [sample_doc ''d1'' ''aaa'']
                (stub_cache [sample_doc ''d1'' ''aaa'']) (Some [[1, 0]]) None) ''aaa'' 1
     = Inl (AttributeError ''NoneType object has no attribute search'')"
proof (intro conjI)
  show "load_documents [sample_doc ''d1'' ''aaa''] (init_engine True False stub_embedder Map.empty)
     = (1, stub_engine False [sample_doc ''d1'' ''aaa''] Map.empty None None)"
    by (simp add: load_documents_stub)
qed (simp_all add: generate_d1 search_eval)

lemma search_cosine_top_k_beyond:
  assumes "\<forall>row \<in> set m. length row = length q" and "int (length m) \<le> k"
  shows "\<exists>scores idxs. search_cosine m q k = Inr (scores, idxs) \<and> length idxs = length m
           \<and> length scores = length m \<and> sorted (rev scores)"
proof -
  let ?S = "map (\<lambda>row. inner_product row q) m"
  have dot: "np_dot m q = Inr ?S"
    using assms(1) by (simp add: np_dot_def list_ex_iff)
  have len: "length (argsort ?S) = length m" by (simp add: argsort_def)
  have top: "slice_to (rev (argsort ?S)) k = rev (argsort ?S)"
    using assms(2) len by (simp add: slice_to_def)
  have "sorted (map (\<lambda>i. ?S ! i) (argsort ?S))" by (simp add: argsort_def)
  then have "sorted (rev (map (\<lambda>i. ?S ! i) (rev (argsort ?S))))" by (simp add: rev_map)
  then show ?thesis
    using len by (simp add: search_cosine_def dot top Let_def del: map_map)
qed

lemma search_cosine_empty_index: "search_cosine [] q k = Inr ([], [])"
  by (simp add: search_cosine_def np_dot_def argsort_def slice_to_def)

text \<open>
  C7. With \<open>top_k\<close> above the number of documents a search should return every document
  once; the brute-force scan does, the FAISS strategy does not. The flat index answers
  with exactly \<open>top_k\<close> places, the missing ones labelled \<open>-1\<close>, and \<open>search\<close> reads
  \<open>documents[-1]\<close> for them. With one document and \<open>top_k = 2\<close> the initialised engine
  returns two results, the second being the same document again with the score
  \<open>-FLT_MAX\<close>, where the brute-force scan of the same index returns one.
\<close>

theorem search_faiss_top_k_beyond_document_count:
  "initialize_search_engine stub_digest ''now'' True stub_embedder Map.empty
       [sample_doc ''d1'' ''aaa''] True False
     = Inr (stub_engine True [sample_doc ''d1'' ''aaa''] (stub_cache [sample_doc ''d1'' ''aaa''])
              (Some [[1, 0]]) (Some \<lparr>faiss_d = 2, faiss_xb = [[1, 0]]\<rparr>))
   \<and> search (stub_engine True [sample_doc ''d1'' ''aaa''] (stub_cache [sample_doc ''d1'' ''aaa''])
               (Some [[1, 0]]) (Some \<lparr>faiss_d = 2, faiss_xb = [[1, 0]]\<rparr>)) ''aaa'' 2
     = Inr [\<lparr>rank = 1, res_doc_id = ''d1'', res_filename = ''d1.txt'', score = 1,
              preview = ''aaa'', doc_length = 3, keywords_overlap = [''aaa''],
              res_overlap_count = 1, res_overlap_ratio = 1,
              explanation = [HighSimilarity 1, MatchingKeywords 1 1 [''aaa''], ShortDocument]\<rparr>,
            \<lparr>rank = 2, res_doc_id = ''d1'', res_filename = ''d1.txt'', score = neg_FLT_MAX,
              preview = ''aaa'', doc_length = 3, keywords_overlap = [''aaa''],
              res_overlap_count = 1, res_overlap_ratio = 1,
              explanation = [LowSimilarity neg_FLT_MAX, MatchingKeywords 1 1 [''aaa''],
                             ShortDocument]\<rparr>]
   \<and> search_cosine [[1, 0]] [1, 0] 2 = Inr ([1], [0])"
proof (intro conjI)
  show "initialize_search_engine stub_digest ''now'' True stub_embedder Map.empty
       [sample_doc ''d1'' ''aaa''] True False
     = Inr (stub_engine True [sample_doc ''d1'' ''aaa''] (stub_cache [sample_doc ''d1'' ''aaa''])
              (Some [[1, 0]]) (Some \<lparr>faiss_d = 2, faiss_xb = [[1, 0]]\<rparr>))"
    by (simp add: initialize_eval)
qed (simp_all add: search_eval)





lemma strip_blank: "\<forall>c \<in> set q. isspace c \<Longrightarrow> strip q = []"
  by (auto simp add: strip_def dest: set_dropWhileD)

text \<open>
  C8, as stated, fails: \<open>SearchEngine.search\<close> does not validate \<open>top_k\<close> and rejects
  only the empty query. On an initialised two-document engine (brute-force strategy),
  \<open>top_k = 0\<close> gives an empty list, \<open>top_k = -1\<close> gives one of the two documents, and the
  blank query \<open>" "\<close> gives a ranked result.
\<close>

theorem search_accepts_blank_query_and_nonpositive_top_k:
  "initialize_search_engine stub_digest ''now'' True stub_embedder Map.empty
       [sample_doc ''d1'' ''aaa'', sample_doc ''d2'' ''bbb''] False False
     = Inr (stub_engine False [sample_doc ''d1'' ''aaa'', sample_doc ''d2'' ''bbb'']
              (stub_cache [sample_doc ''d1'' ''aaa'', sample_doc ''d2'' ''bbb''])
              (Some [[1, 0], [0, 1]]) None)
   \<and> search (stub_engine False [sample_doc ''d1'' ''aaa'', sample_doc ''d2'' ''bbb'']
              (stub_cache [sample_doc ''d1'' ''aaa'', sample_doc ''d2'' ''bbb''])
              (Some [[1, 0], [0, 1]]) None) ''aaa'' 0 = Inr []
   \<and> search (stub_engine False [sample_doc ''d1'' ''aaa'', sample_doc ''d2'' ''bbb'']
              (stub_cache [sample_doc ''d1'' ''aaa'', sample_doc ''d2'' ''bbb''])
              (Some [[1, 0], [0, 1]]) None) ''aaa'' (- 1)
     = Inr [\<lparr>rank = 1, res_doc_id = ''d1'', res_filename = ''d1.txt'', score = 1,
              preview = ''aaa'', doc_length = 3, keywords_overlap = [''aaa''],
              res_overlap_count = 1, res_overlap_ratio = 1,
              explanation = [HighSimilarity 1, MatchingKeywords 1 1 [''aaa''], ShortDocument]\<rparr>]
   \<and> search (stub_engine False [sample_doc ''d1'' ''aaa'', sample_doc ''d2'' ''bbb'']
              (stub_cache [sample_doc ''d1'' ''aaa'', sample_doc ''d2'' ''bbb''])
              (Some [[1, 0], [0, 1]]) None) '' '' 1
     = Inr [\<lparr>rank = 1, res_doc_id = ''d2'', res_filename = ''d2.txt'', score = 0,
              preview = ''bbb'', doc_length = 3, keywords_overlap = [],
              res_overlap_count = 0, res_overlap_ratio = 0,
              explanation = [LowSimilarity 0, NoKeywordMatches, ShortDocument]\<rparr>]"
proof (intro conjI)
  show "initialize_search_engine stub_digest ''now'' True stub_embedder Map.empty
       [sample_doc ''d1'' ''aaa'', sample_doc ''d2'' ''bbb''] False False
     = Inr (stub_engine False [sample_doc ''d1'' ''aaa'', sample_doc ''d2'' ''bbb'']
              (stub_cache [sample_doc ''d1'' ''aaa'', sample_doc ''d2'' ''bbb''])
              (Some [[1, 0], [0, 1]]) None)"
    by (simp add: initialize_eval)
qed (simp_all add: search_eval)

text \<open>
  C8, amended. \<open>SearchEngine.search\<close> fails with \<open>ValueError\<close> on the empty query (on an
  engine with embeddings: the embedder's "non-empty string" error). Blank queries and
  \<open>top_k\<close> outside 1..50 are rejected by the API layer: the request model refuses an
  empty query and a \<open>top_k\<close> below 1 or above 50, and the \<open>/search\<close> handler answers a
  blank query with status 400.
\<close>

theorem search_validation_layers:
  "(\<exists>msg. search eng [] k = Inl (ValueError msg))
   \<and> (embeddings eng \<noteq> None \<longrightarrow>
        search eng [] k = Inl (ValueError ''Input text must be a non-empty string''))
   \<and> (q = [] \<or> k < 1 \<or> 50 < k \<longrightarrow>
        (\<exists>fields. fields \<noteq> [] \<and> post_search se q k = Inl (ValidationError fields)))
   \<and> (q \<noteq> [] \<and> 1 \<le> k \<and> k \<le> 50 \<and> (\<forall>c \<in> set q. isspace c) \<longrightarrow>
        post_search (Some eng) q k = Inl (HTTPException 400 ''Query cannot be empty''))"
proof -
  have a: "\<exists>msg. search eng [] k = Inl (ValueError msg)"
    by (simp add: search_def embed_text_def split: option.splits)
  have b: "embeddings eng \<noteq> None \<longrightarrow>
        search eng [] k = Inl (ValueError ''Input text must be a non-empty string'')"
    by (auto simp add: search_def embed_text_def)
  have c: "q = [] \<or> k < 1 \<or> 50 < k \<longrightarrow>
        (\<exists>fields. fields \<noteq> [] \<and> post_search se q k = Inl (ValidationError fields))"
    by (auto simp add: post_search_def SearchRequest_def Let_def)
  have d: "q \<noteq> [] \<and> 1 \<le> k \<and> k \<le> 50 \<and> (\<forall>c \<in> set q. isspace c) \<longrightarrow>
        post_search (Some eng) q k = Inl (HTTPException 400 ''Query cannot be empty'')"
    by (auto simp add: post_search_def SearchRequest_def Let_def search_documents_def strip_blank
          Suc_le_eq)
  from a b c d show ?thesis by blast
qed

theorem search_validation_layers_witness:
  "embeddings (stub_engine False [sample_doc ''d1'' ''aaa''] Map.empty (Some [[1, 0]]) None) \<noteq> None
   \<and> search (stub_engine False [sample_doc ''d1'' ''aaa''] Map.empty (Some [[1, 0]]) None) [] 5
       = Inl (ValueError ''Input text must be a non-empty string'')
   \<and> (0 :: int) < 1
   \<and> (\<exists>fields. fields \<noteq> [] \<and>
          post_search (Some (stub_engine False [sample_doc ''d1'' ''aaa''] Map.empty (Some [[1, 0]]) None))
            ''aaa'' 0 = Inl (ValidationError fields))
   \<and> '' '' \<noteq> [] \<and> (1 :: int) \<le> 5 \<and> (5 :: int) \<le> 50 \<and> list_all isspace '' ''
   \<and> post_search (Some (stub_engine False [sample_doc ''d1'' ''aaa''] Map.empty (Some [[1, 0]]) None))
        '' '' 5 = Inl (HTTPException 400 ''Query cannot be empty'')"
proof -
  have e: "embeddings (stub_engine False [sample_doc ''d1'' ''aaa''] Map.empty (Some [[1, 0]]) None)
             \<noteq> None"
    by (simp add: stub_engine_sel)
  have sp: "\<forall>c \<in> set '' ''. isspace c" by (simp add: isspace_def)
  from search_validation_layers
         [of "stub_engine False [sample_doc ''d1'' ''aaa''] Map.empty (Some [[1, 0]]) None" 5
             "'' ''" "None"]
       search_validation_layers
         [of "stub_engine False [sample_doc ''d1'' ''aaa''] Map.empty (Some [[1, 0]]) None" 0
             "''aaa''" "Some (stub_engine False [sample_doc ''d1'' ''aaa''] Map.empty (Some [[1, 0]]) None)"]
       e sp
  show ?thesis by simp
qed

section \<open>Ranking: the two strategies\<close>











section \<open>Idempotence of embedding generation\<close>

lemma check_cache_cong:
  "db doc = db' doc \<Longrightarrow> check_cache H db doc txt edim = check_cache H db' doc txt edim"
  by (simp add: check_cache_def)

lemma generate_loop_frame:
  "generate_loop H ts emb force edim docs acc db = (r, db') \<Longrightarrow> i \<notin> doc_id ` set docs \<Longrightarrow> db' i = db i"
proof (induction docs arbitrary: acc db)
  case Nil
  then show ?case by simp
next
  case (Cons d docs)
  then show ?case
    by (auto simp add: save_embedding_def split: if_splits sum.splits option.splits)
qed

lemma generate_loop_all_hits:
  assumes "length vs = length docs"
    and "\<forall>i < length docs. check_cache H db (doc_id (docs ! i)) (content (docs ! i)) edim = Inr (Some (vs ! i))"
  shows "generate_loop H ts emb False edim docs acc db
           = (Inr (acc\<lparr>embeddings_list := embeddings_list acc @ vs,
                       cache_hits := cache_hits acc + length docs\<rparr>), db)"
  using assms
proof (induction docs arbitrary: vs acc)
  case Nil
  then show ?case by simp
next
  case (Cons d docs)
  then obtain v vs' where vs: "vs = v # vs'" by (cases vs) auto
  from Cons.prems(2) have hd: "check_cache H db (doc_id d) (content d) edim = Inr (Some v)"
    using vs by force
  from Cons.prems(2) have tl: "\<forall>i < length docs. check_cache H db (doc_id (docs ! i)) (content (docs ! i)) edim = Inr (Some (vs' ! i))"
    using vs by force
  from Cons.prems(1) vs have len: "length vs' = length docs" by simp
  show ?case
    by (simp add: hd vs Cons.IH [OF len tl])
qed

lemma generate_loop_first_run:
  assumes "distinct (map doc_id docs)"
    and "\<forall>d \<in> set docs. int (length (model_encode emb (lower (content d)))) = edim"
    and "generate_loop H ts emb False edim docs acc db = (Inr acc', db')"
  shows "\<exists>vs. length vs = length docs \<and> embeddings_list acc' = embeddings_list acc @ vs
            \<and> (\<forall>i < length docs. check_cache H db' (doc_id (docs ! i)) (content (docs ! i)) edim
                                   = Inr (Some (vs ! i)))"
  using assms
proof (induction docs arbitrary: acc db)
  case Nil
  then show ?case by auto
next
  case (Cons d docs)
  have notin: "doc_id d \<notin> doc_id ` set docs" using Cons.prems(1) by auto
  have dist: "distinct (map doc_id docs)" using Cons.prems(1) by simp
  have enc: "\<forall>d \<in> set docs. int (length (model_encode emb (lower (content d)))) = edim"
    using Cons.prems(2) by simp
  show ?case
  proof (cases "check_cache H db (doc_id d) (content d) edim")
    case (Inl e)
    with Cons.prems(3) show ?thesis by simp
  next
    case (Inr r)
    show ?thesis
    proof (cases r)
      case (Some c)
      let ?acc1 = "acc\<lparr>embeddings_list := embeddings_list acc @ [c], cache_hits := cache_hits acc + 1\<rparr>"
      from Cons.prems(3) Inr Some
      have run: "generate_loop H ts emb False edim docs ?acc1 db = (Inr acc', db')" by simp
      from Cons.IH [OF dist enc run] obtain vs where
        vs: "length vs = length docs" "embeddings_list acc' = embeddings_list ?acc1 @ vs"
        "\<forall>i < length docs. check_cache H db' (doc_id (docs ! i)) (content (docs ! i)) edim = Inr (Some (vs ! i))"
        by blast
      have "db' (doc_id d) = db (doc_id d)" by (rule generate_loop_frame [OF run notin])
      then have hd: "check_cache H db' (doc_id d) (content d) edim = Inr (Some c)"
        using Inr Some check_cache_cong by metis
      have "\<forall>i < length (d # docs). check_cache H db' (doc_id ((d # docs) ! i)) (content ((d # docs) ! i)) edim
               = Inr (Some ((c # vs) ! i))"
        using hd vs(3) by (auto simp add: nth_Cons split: nat.splits)
      with vs(1,2) show ?thesis
        by (intro exI [of _ "c # vs"]) simp
    next
      case None
      show ?thesis
      proof (cases "embed_text emb (content d)")
        case (Inl e)
        with Cons.prems(3) Inr None show ?thesis by simp
      next
        case (Inr e)
        note emb_ok = this
        let ?acc1 = "acc\<lparr>embeddings_list := embeddings_list acc @ [e], cache_misses := cache_misses acc + 1\<rparr>"
        let ?db1 = "save_embedding H db (doc_id d) (content d) e ts"
        from Cons.prems(3) \<open>check_cache H db (doc_id d) (content d) edim = Inr r\<close> None emb_ok
        have run: "generate_loop H ts emb False edim docs ?acc1 ?db1 = (Inr acc', db')" by simp
        from Cons.IH [OF dist enc run] obtain vs where
          vs: "length vs = length docs" "embeddings_list acc' = embeddings_list ?acc1 @ vs"
          "\<forall>i < length docs. check_cache H db' (doc_id (docs ! i)) (content (docs ! i)) edim = Inr (Some (vs ! i))"
          by blast
        have e_def: "e = model_encode emb (lower (content d))"
          using emb_ok by (auto simp add: embed_text_def split: if_splits)
        have len_e: "int (length e) = edim" using Cons.prems(2) e_def by simp
        have "db' (doc_id d) = ?db1 (doc_id d)" by (rule generate_loop_frame [OF run notin])
        then have "check_cache H db' (doc_id d) (content d) edim = check_cache H ?db1 (doc_id d) (content d) edim"
          by (rule check_cache_cong)
        also have "\<dots> = Inr (Some e)" by (simp add: check_cache_after_save len_e)
        finally have hd: "check_cache H db' (doc_id d) (content d) edim = Inr (Some e)" .
        have "\<forall>i < length (d # docs). check_cache H db' (doc_id ((d # docs) ! i)) (content ((d # docs) ! i)) edim
               = Inr (Some ((e # vs) ! i))"
          using hd vs(3) by (auto simp add: nth_Cons split: nat.splits)
        with vs(1,2) show ?thesis
          by (intro exI [of _ "e # vs"]) simp
      qed
    qed
  qed
qed

lemma sample_doc_in_sel:
  "doc_id (sample_doc_in dir i c) = i" "content (sample_doc_in dir i c) = c"
  "filepath (sample_doc_in dir i c) = ''data/'' @ dir @ ''/'' @ i @ ''.txt''"
  by (simp_all add: sample_doc_in_def)

text \<open>
  C4, as stated, fails: not every loaded document set is served from the cache on the
  second run. Two files \<open>data/a/x.txt\<close> and \<open>data/b/x.txt\<close> of different content are
  loaded with the one doc_id \<open>x\<close> and share one cache row, which each overwrites for the
  other: the first run has no hit and two misses, and so has the second.
\<close>

theorem generate_embeddings_duplicate_doc_id_misses:
  "filepath (sample_doc_in ''a'' ''x'' ''aaa'') = ''data/a/x.txt''
   \<and> filepath (sample_doc_in ''b'' ''x'' ''bbb'') = ''data/b/x.txt''
   \<and> load_documents [sample_doc_in ''a'' ''x'' ''aaa'', sample_doc_in ''b'' ''x'' ''bbb'']
         (init_engine True False stub_embedder Map.empty)
       = (2, stub_engine False [sample_doc_in ''a'' ''x'' ''aaa'', sample_doc_in ''b'' ''x'' ''bbb'']
               Map.empty None None)
   \<and> generate_embeddings stub_digest ''now'' False
         (stub_engine False [sample_doc_in ''a'' ''x'' ''aaa'', sample_doc_in ''b'' ''x'' ''bbb'']
            Map.empty None None)
       = (Inr (0, 2),
          stub_engine False [sample_doc_in ''a'' ''x'' ''aaa'', sample_doc_in ''b'' ''x'' ''bbb'']
            [''x'' \<mapsto> \<lparr>row_embedding = tobytes [0, 0x3F800000], row_hash = ''bbb'',
                       row_updated_at = ''now''\<rparr>]
            (Some [[1, 0], [0, 1]]) None)
   \<and> generate_embeddings stub_digest ''later'' False
         (stub_engine False [sample_doc_in ''a'' ''x'' ''aaa'', sample_doc_in ''b'' ''x'' ''bbb'']
            [''x'' \<mapsto> \<lparr>row_embedding = tobytes [0, 0x3F800000], row_hash = ''bbb'',
                       row_updated_at = ''now''\<rparr>]
            (Some [[1, 0], [0, 1]]) None)
       = (Inr (0, 2),
          stub_engine False [sample_doc_in ''a'' ''x'' ''aaa'', sample_doc_in ''b'' ''x'' ''bbb'']
            [''x'' \<mapsto> \<lparr>row_embedding = tobytes [0, 0x3F800000], row_hash = ''bbb'',
                       row_updated_at = ''later''\<rparr>]
            (Some [[1, 0], [0, 1]]) None)"
proof (intro conjI)
  show "load_documents [sample_doc_in ''a'' ''x'' ''aaa'', sample_doc_in ''b'' ''x'' ''bbb'']
         (init_engine True False stub_embedder Map.empty)
       = (2, stub_engine False [sample_doc_in ''a'' ''x'' ''aaa'', sample_doc_in ''b'' ''x'' ''bbb'']
               Map.empty None None)"
    by (simp add: load_documents_stub)
qed (simp_all add: sample_doc_in_sel generate_embeddings_def stub_engine_def
       get_embedding_dimension_def stub_embedder_def check_cache_def embed_text_def
       stub_encode_eval np_array_def f32_val_one f32_val_zero save_embedding_def
       compute_hash_def stub_digest_def)

text \<open>
  C4, amended. For a loaded document set with pairwise distinct doc_ids and an embedder
  whose vectors have the dimension it reports, if \<open>generate_embeddings\<close> without
  \<open>force_regenerate\<close> has completed, then running it again serves every document from
  the cache (as many hits as documents, no miss), collects the same float32 vectors, bit
  for bit, as the first run collected, and leaves the engine as it is, embedding matrix
  and cache included.
\<close>

theorem generate_embeddings_idempotent:
  assumes ids: "distinct (map doc_id (documents eng))"
    and enc: "\<forall>d \<in> set (documents eng).
                int (length (model_encode (the_embedder eng) (lower (content d))))
                  = model_dimension (the_embedder eng)"
    and first: "generate_embeddings H ts False eng = (Inr counts, eng1)"
  shows "generate_embeddings H ts' False eng1 = (Inr (length (documents eng), 0), eng1)
       \<and> (\<exists>vectors.
             generate_embeddings_list H ts False eng
               = (Inr \<lparr>embeddings_list = vectors, cache_hits = fst counts,
                       cache_misses = snd counts\<rparr>, cache_db eng1)
           \<and> generate_embeddings_list H ts' False eng1
               = (Inr \<lparr>embeddings_list = vectors, cache_hits = length (documents eng),
                       cache_misses = 0\<rparr>, cache_db eng1)
           \<and> embeddings eng1 = Some (map (map f32_val) vectors))"
proof -
  let ?emb = "the_embedder eng"
  let ?edim = "get_embedding_dimension ?emb"
  let ?acc0 = "\<lparr>embeddings_list = [], cache_hits = 0, cache_misses = 0\<rparr>"
  from first have nonempty: "length (documents eng) \<noteq> 0"
    by (auto simp add: generate_embeddings_def split: if_splits)
  obtain r db' where
    loop: "generate_loop H ts ?emb False ?edim (documents eng) ?acc0 (cache_db eng) = (r, db')"
    by (cases "generate_loop H ts ?emb False ?edim (documents eng) ?acc0 (cache_db eng)") auto
  from first nonempty loop obtain acc' where r: "r = Inr acc'"
    by (cases r) (auto simp add: generate_embeddings_def Let_def)
  from first nonempty loop r obtain arr where
    arr: "np_array (embeddings_list acc') = Inr arr"
    and eng1: "eng1 = eng\<lparr>cache_db := db', embeddings := Some arr\<rparr>"
    and counts: "counts = (cache_hits acc', cache_misses acc')"
    by (cases "np_array (embeddings_list acc')") (auto simp add: generate_embeddings_def Let_def)
  from enc have enc': "\<forall>d \<in> set (documents eng).
                int (length (model_encode ?emb (lower (content d)))) = ?edim"
    by (simp add: get_embedding_dimension_def)
  from generate_loop_first_run [OF ids enc' loop [unfolded r]] obtain vs where
    vs: "length vs = length (documents eng)" "embeddings_list acc' = vs"
      "\<forall>i < length (documents eng).
          check_cache H db' (doc_id (documents eng ! i)) (content (documents eng ! i)) ?edim
            = Inr (Some (vs ! i))"
    by auto
  have second: "generate_loop H ts' ?emb False ?edim (documents eng) ?acc0 db'
                  = (Inr \<lparr>embeddings_list = vs, cache_hits = length (documents eng),
                          cache_misses = 0\<rparr>, db')"
    using generate_loop_all_hits [OF vs(1) vs(3), of ts' ?emb ?acc0] by simp
  have again: "generate_embeddings H ts' False eng1 = (Inr (length (documents eng), 0), eng1)"
    using nonempty second arr vs(2)
    by (simp add: generate_embeddings_def eng1 Let_def)
  have acc': "acc' = \<lparr>embeddings_list = vs, cache_hits = fst counts, cache_misses = snd counts\<rparr>"
    using vs(2) counts by simp
  have run1: "generate_embeddings_list H ts False eng
               = (Inr \<lparr>embeddings_list = vs, cache_hits = fst counts,
                       cache_misses = snd counts\<rparr>, cache_db eng1)"
    using loop r acc' by (simp add: generate_embeddings_list_def eng1)
  have run2: "generate_embeddings_list H ts' False eng1
               = (Inr \<lparr>embeddings_list = vs, cache_hits = length (documents eng),
                       cache_misses = 0\<rparr>, cache_db eng1)"
    using second by (simp add: generate_embeddings_list_def eng1)
  have mat: "embeddings eng1 = Some (map (map f32_val) vs)"
    using arr vs(2) by (auto simp add: eng1 np_array_def split: if_splits)
  from again run1 run2 mat show ?thesis by blast
qed

theorem generate_embeddings_idempotent_witness:
  "distinct (map doc_id [sample_doc ''d1'' ''aaa'', sample_doc ''d2'' ''bbb''])
   \<and> list_all (\<lambda>d. int (length (model_encode stub_embedder (lower (content d))))
                     = model_dimension stub_embedder)
        [sample_doc ''d1'' ''aaa'', sample_doc ''d2'' ''bbb'']
   \<and> generate_embeddings stub_digest ''now'' False
        (stub_engine False [sample_doc ''d1'' ''aaa'', sample_doc ''d2'' ''bbb''] Map.empty None None)
      = (Inr (0, 2), stub_engine False [sample_doc ''d1'' ''aaa'', sample_doc ''d2'' ''bbb'']
           (stub_cache [sample_doc ''d1'' ''aaa'', sample_doc ''d2'' ''bbb''])
           (Some [[1, 0], [0, 1]]) None)
   \<and> generate_embeddings stub_digest ''later'' False
        (stub_engine False [sample_doc ''d1'' ''aaa'', sample_doc ''d2'' ''bbb'']
           (stub_cache [sample_doc ''d1'' ''aaa'', sample_doc ''d2'' ''bbb''])
           (Some [[1, 0], [0, 1]]) None)
      = (Inr (2, 0), stub_engine False [sample_doc ''d1'' ''aaa'', sample_doc ''d2'' ''bbb'']
           (stub_cache [sample_doc ''d1'' ''aaa'', sample_doc ''d2'' ''bbb''])
           (Some [[1, 0], [0, 1]]) None)
   \<and> generate_embeddings_list stub_digest ''later'' False
        (stub_engine False [sample_doc ''d1'' ''aaa'', sample_doc ''d2'' ''bbb'']
           (stub_cache [sample_doc ''d1'' ''aaa'', sample_doc ''d2'' ''bbb''])
           (Some [[1, 0], [0, 1]]) None)
      = (Inr \<lparr>embeddings_list = [[0x3F800000, 0], [0, 0x3F800000]], cache_hits = 2,
              cache_misses = 0\<rparr>,
         stub_cache [sample_doc ''d1'' ''aaa'', sample_doc ''d2'' ''bbb''])"
proof -
  let ?docs = "[sample_doc ''d1'' ''aaa'', sample_doc ''d2'' ''bbb'']"
  let ?eng = "stub_engine False ?docs Map.empty None None"
  let ?eng1 = "stub_engine False ?docs (stub_cache ?docs) (Some [[1, 0], [0, 1]]) None"
  have ids: "distinct (map doc_id (documents ?eng))"
    by (simp add: stub_engine_sel sample_doc_sel)
  have enc: "\<forall>d \<in> set (documents ?eng).
                int (length (model_encode (the_embedder ?eng) (lower (content d))))
                  = model_dimension (the_embedder ?eng)"
    by (simp add: stub_engine_sel stub_embedder_def stub_encode_def)
  have enc': "list_all (\<lambda>d. int (length (model_encode stub_embedder (lower (content d))))
                     = model_dimension stub_embedder) ?docs"
    by (simp add: stub_embedder_def stub_encode_def)
  note first = generate_d1_d2 [of False]
  have run1: "generate_embeddings_list stub_digest ''now'' False ?eng
                = (Inr \<lparr>embeddings_list = [[0x3F800000, 0], [0, 0x3F800000]], cache_hits = 0,
                        cache_misses = 2\<rparr>, stub_cache ?docs)"
    by (simp add: generate_embeddings_list_def generate_eval)
  note idem = generate_embeddings_idempotent [OF ids enc first, of "''later''"]
  from idem run1 have run2: "generate_embeddings_list stub_digest ''later'' False ?eng1
      = (Inr \<lparr>embeddings_list = [[0x3F800000, 0], [0, 0x3F800000]], cache_hits = 2,
              cache_misses = 0\<rparr>, stub_cache ?docs)"
    by (auto simp add: stub_engine_sel)
  from idem ids enc' first run2 show ?thesis by (simp add: stub_engine_sel)
qed

end
